theory Spec2Isabelle
  imports Main "HOL-Library.Word"
begin

unbundle bit_operations_syntax

section \<open>Types.h\<close>

text \<open>
  \<open>BYTE\<close> is \<open>uint8_t\<close>; \<open>unsigned int\<close> is 32 bits wide and wraps around. The fields of
  type \<open>int\<close> only ever hold 0, 1, 3, 4 (channels) and 0, 8, 24, 32 (bits per pixel), so
  they are kept as \<open>int\<close> and converted with \<open>word_of_int\<close> where C++ converts them to
  \<open>unsigned int\<close>.
\<close>

type_synonym BYTE = "8 word"
type_synonym uint = "32 word"

datatype ColorSpace = UNKNOWN | GRAYSCALE | RGB | RGBA

text \<open>\<open>ColorSpace::calculateNumberOfChannels\<close>: the switch with its default branch.\<close>

fun calculateNumberOfChannels :: "ColorSpace \<Rightarrow> int" where
  "calculateNumberOfChannels RGB = 3"
| "calculateNumberOfChannels RGBA = 4"
| "calculateNumberOfChannels GRAYSCALE = 1"
| "calculateNumberOfChannels _ = 0"

section \<open>Image.h, instantiated at \<open>Channel = BYTE\<close>\<close>

text \<open>
  An array obtained from \<open>new BYTE[n]\<close> holds indeterminate values until written, so a
  storage element is either \<open>Indeterminate\<close> or a byte. The pointer \<open>mData\<close> is \<open>None\<close>
  for \<open>nullptr\<close> and \<open>Some xs\<close> for an array of \<open>length xs\<close> elements. Exhaustion of the
  free store (\<open>std::bad_alloc\<close>) is outside the model: \<open>new\<close> always delivers.
\<close>

datatype cell = Indeterminate | Byte BYTE

type_synonym buffer = "cell list option"

datatype error =
    OutOfBounds  \<comment> \<open>an access outside the allocated array: undefined behaviour in C++\<close>
  | CodecExit    \<comment> \<open>libjpeg's standard \<open>error_exit\<close> handler ends the process\<close>

record Image =
  mColorSpace :: ColorSpace
  mBpp :: int
  mWidth :: uint
  mHeight :: uint
  mRowSize :: uint
  mNumberOfChannels :: int
  mData :: buffer

definition new_array :: "nat \<Rightarrow> buffer" where
  "new_array n = Some (replicate n Indeterminate)"

text \<open>The number of elements the array behind \<open>mData\<close> was allocated with.\<close>

definition allocated :: "Image \<Rightarrow> nat" where
  "allocated img = (case mData img of None \<Rightarrow> 0 | Some xs \<Rightarrow> length xs)"

text \<open>
  \<open>memcpy(dst, src, n)\<close> on byte arrays. Copying nothing changes nothing; copying \<open>n > 0\<close>
  bytes needs both arrays to exist and to hold at least \<open>n\<close> elements, and is undefined
  otherwise. Source and destination are distinct arrays (values, not aliases).
\<close>

definition memcpy :: "buffer \<Rightarrow> buffer \<Rightarrow> nat \<Rightarrow> error + buffer" where
  "memcpy dst src n =
     (if n = 0 then Inr dst
      else case (dst, src) of
             (Some d, Some s) \<Rightarrow>
               if n \<le> length d \<and> n \<le> length s then Inr (Some (take n s @ drop n d))
               else Inl OutOfBounds
           | _ \<Rightarrow> Inl OutOfBounds)"

text \<open>
  What a caller does with a pointer \<open>mData + off\<close>: store the elements \<open>vs\<close> at
  \<open>off, off + 1, ...\<close>, or load \<open>n\<close> elements from there. Touching no element is always
  fine; touching one outside the array is undefined.
\<close>

definition write_block :: "buffer \<Rightarrow> nat \<Rightarrow> cell list \<Rightarrow> error + buffer" where
  "write_block buf off vs =
     (if vs = [] then Inr buf
      else case buf of
             None \<Rightarrow> Inl OutOfBounds
           | Some d \<Rightarrow>
               if off + length vs \<le> length d
               then Inr (Some (take off d @ vs @ drop (off + length vs) d))
               else Inl OutOfBounds)"

definition read_block :: "buffer \<Rightarrow> nat \<Rightarrow> nat \<Rightarrow> error + cell list" where
  "read_block buf off n =
     (if n = 0 then Inr []
      else case buf of
             None \<Rightarrow> Inl OutOfBounds
           | Some d \<Rightarrow>
               if off + n \<le> length d then Inr (take n (drop off d)) else Inl OutOfBounds)"

text \<open>\<open>Image::calculateBpp\<close> with \<open>sizeof(BYTE) = 1\<close>.\<close>

definition calculateBpp :: "ColorSpace \<Rightarrow> int" where
  "calculateBpp colorSpace = calculateNumberOfChannels colorSpace * 1 * 8"

text \<open>
  \<open>Image::calculateRowSize\<close>: \<open>((width * bpp + 31) & ~31) >> 3\<close>, evaluated in
  \<open>unsigned int\<close> because \<open>width\<close> is unsigned.
\<close>

definition calculateRowSize :: "uint \<Rightarrow> int \<Rightarrow> uint" where
  "calculateRowSize width bpp = drop_bit 3 ((width * word_of_int bpp + 31) AND NOT 31)"

text \<open>\<open>Image::Image()\<close>.\<close>

definition Image_ctor :: Image where
  "Image_ctor =
     \<lparr> mColorSpace = RGB, mBpp = 0, mWidth = 0, mHeight = 0, mRowSize = 0,
       mNumberOfChannels = 0, mData = None \<rparr>"

text \<open>
  \<open>Image::Image(width, height, colorSpace, data)\<close>. The array has
  \<open>mRowSize * mHeight\<close> elements, a product of two \<open>unsigned int\<close> that wraps at \<open>2^32\<close>;
  the byte count handed to \<open>memcpy\<close> is the same product taken in \<open>size_t\<close> (64 bits),
  which does not wrap.
\<close>

definition Image_ctor_data :: "uint \<Rightarrow> uint \<Rightarrow> ColorSpace \<Rightarrow> buffer \<Rightarrow> error + Image" where
  "Image_ctor_data width height colorSpace data =
     (let bpp = calculateBpp colorSpace;
          rowSize = calculateRowSize width bpp;
          this = \<lparr> mColorSpace = colorSpace, mBpp = bpp, mWidth = width, mHeight = height,
                   mRowSize = rowSize,
                   mNumberOfChannels = calculateNumberOfChannels colorSpace,
                   mData = new_array (unat (rowSize * height)) \<rparr>
      in case data of
           None \<Rightarrow> Inr this
         | Some src \<Rightarrow>
             (case memcpy (mData this) data (1 * unat (mRowSize this) * unat (mHeight this)) of
                Inl e \<Rightarrow> Inl e
              | Inr d \<Rightarrow> Inr (this\<lparr>mData := d\<rparr>)))"

text \<open>\<open>Image::Image(const Image&)\<close> delegates to the constructor above.\<close>

definition Image_copy :: "Image \<Rightarrow> error + Image" where
  "Image_copy img =
     Image_ctor_data (mWidth img) (mHeight img) (mColorSpace img) (mData img)"

text \<open>\<open>Image::destroy\<close>.\<close>

definition destroy :: "Image \<Rightarrow> Image" where
  "destroy this =
     this\<lparr> mColorSpace := RGB, mBpp := 0, mWidth := 0, mHeight := 0, mRowSize := 0,
           mNumberOfChannels := 0, mData := None \<rparr>"

text \<open>\<open>Image::create\<close>.\<close>

definition create :: "Image \<Rightarrow> uint \<Rightarrow> uint \<Rightarrow> ColorSpace \<Rightarrow> buffer \<Rightarrow> error + Image" where
  "create this0 width height colorSpace data =
     (let this1 = destroy this0;
          this2 = this1\<lparr> mColorSpace := colorSpace, mBpp := calculateBpp colorSpace \<rparr>;
          this3 = this2\<lparr> mWidth := width, mHeight := height \<rparr>;
          this4 = this3\<lparr> mRowSize := calculateRowSize (mWidth this3) (mBpp this3),
                         mNumberOfChannels := calculateNumberOfChannels colorSpace \<rparr>;
          this5 = this4\<lparr> mData := new_array (unat (mRowSize this4 * mHeight this4)) \<rparr>
      in case data of
           None \<Rightarrow> Inr this5
         | Some src \<Rightarrow>
             (case memcpy (mData this5) data (1 * unat (mRowSize this5) * unat (mHeight this5)) of
                Inl e \<Rightarrow> Inl e
              | Inr d \<Rightarrow> Inr (this5\<lparr>mData := d\<rparr>)))"

text \<open>The getters.\<close>

definition getWidth :: "Image \<Rightarrow> uint" where
  "getWidth this = mWidth this"

definition getHeight :: "Image \<Rightarrow> uint" where
  "getHeight this = mHeight this"

definition getRowSize :: "Image \<Rightarrow> uint" where
  "getRowSize this = mRowSize this"

definition getColorSpace :: "Image \<Rightarrow> ColorSpace" where
  "getColorSpace this = mColorSpace this"

definition getNumberOfChannels :: "Image \<Rightarrow> int" where
  "getNumberOfChannels this = mNumberOfChannels this"

definition getData :: "Image \<Rightarrow> buffer" where
  "getData this = mData this"

text \<open>
  \<open>Image::operator()\<close> returns the pointer \<open>mData + (row * mRowSize + column *
  mNumberOfChannels)\<close>; the model returns the offset, computed in \<open>unsigned int\<close>.
\<close>

definition pixelAt :: "Image \<Rightarrow> uint \<Rightarrow> uint \<Rightarrow> nat" where
  "pixelAt this row column =
     unat (row * mRowSize this + column * word_of_int (mNumberOfChannels this))"

text \<open>
  Writing and reading the channel values of one pixel through that pointer, as the
  callers of \<open>operator()\<close> do: \<open>p[0] = v0; p[1] = v1; ...\<close> and back.
\<close>

definition writePixel :: "Image \<Rightarrow> uint \<Rightarrow> uint \<Rightarrow> BYTE list \<Rightarrow> error + Image" where
  "writePixel this row column vs =
     (case write_block (mData this) (pixelAt this row column) (map Byte vs) of
        Inl e \<Rightarrow> Inl e
      | Inr d \<Rightarrow> Inr (this\<lparr>mData := d\<rparr>))"

definition readPixel :: "Image \<Rightarrow> uint \<Rightarrow> uint \<Rightarrow> error + cell list" where
  "readPixel this row column =
     read_block (mData this) (pixelAt this row column) (nat (mNumberOfChannels this))"

text \<open>
  \<open>Image::operator=\<close>, whose parameter \<open>image\<close> is written \<open>img\<close> here. The six
  fields are overwritten first; \<open>destSize\<close> is then read from the fields just
  overwritten.
\<close>

definition operator_assign :: "Image \<Rightarrow> Image \<Rightarrow> error + Image" where
  "operator_assign this0 img =
     (let this1 = this0\<lparr> mWidth := mWidth img, mHeight := mHeight img,
                         mRowSize := mRowSize img,
                         mNumberOfChannels := mNumberOfChannels img,
                         mColorSpace := mColorSpace img, mBpp := mBpp img \<rparr>;
          sourceSize = mRowSize img * mHeight img;
          destSize = mRowSize this1 * mHeight this1;
          this2 = (if sourceSize \<noteq> destSize
                   then this1\<lparr> mData := new_array (unat sourceSize) \<rparr>
                   else this1)
      in case memcpy (mData this2) (mData img) (unat sourceSize) of
           Inl e \<Rightarrow> Inl e
         | Inr d \<Rightarrow> Inr (this2\<lparr>mData := d\<rparr>))"

section \<open>The environment of ImageFile: the C library's files and libjpeg\<close>

text \<open>
  The file system maps a path to the bytes stored under it. \<open>fopen(path, "rb")\<close>
  succeeds when the file exists and may be read. \<open>fopen(path, "wb")\<close> succeeds when the
  path may be written, and then the file exists and is empty: it is created, or truncated
  to length zero. Every call that acquires or releases something, and every libjpeg call,
  is appended to \<open>calls\<close>.
\<close>

datatype event =
    Fopen string | Fclose string
  | Create_decompress | Stdio_src | Read_header | Start_decompress | Read_scanlines nat
  | Finish_decompress | Destroy_decompress
  | Create_compress | Stdio_dest | Set_defaults | Set_quality int | Start_compress
  | Write_scanlines nat | Finish_compress | Destroy_compress

record world =
  files :: "string \<Rightarrow> BYTE list option"
  can_read :: "string \<Rightarrow> bool"
  can_write :: "string \<Rightarrow> bool"
  calls :: "event list"

definition emit :: "event list \<Rightarrow> world \<Rightarrow> world" where
  "emit es w = w\<lparr> calls := calls w @ es \<rparr>"

definition fopen_rb :: "world \<Rightarrow> string \<Rightarrow> (BYTE list \<times> world) option" where
  "fopen_rb w path =
     (case files w path of
        None \<Rightarrow> None
      | Some content \<Rightarrow> if can_read w path then Some (content, emit [Fopen path] w) else None)"

definition fopen_wb :: "world \<Rightarrow> string \<Rightarrow> world option" where
  "fopen_wb w path =
     (if can_write w path
      then Some (emit [Fopen path] (w\<lparr> files := (files w)(path \<mapsto> []) \<rparr>))
      else None)"

text \<open>
  libjpeg is an external library; the source uses the following of it. The colour spaces
  are the enumerators of \<open>J_COLOR_SPACE\<close>, among them every one the source names. A
  decompression object, once the header is read and decompression started, reports the
  output colour space and dimensions and delivers one scanline per call of
  \<open>jpeg_read_scanlines\<close> with a single row pointer. The library's verdicts are parameters
  of the model: \<open>read_header\<close> is \<open>None\<close> when the bytes are no image the library
  accepts, \<open>start_compress_ok\<close> says whether it accepts the compression parameters, and
  \<open>compressed\<close> is the byte stream it produces. A rejected input reaches the standard
  error handler installed by \<open>jpeg_std_error\<close>, which ends the process
  (\<open>CodecExit\<close>). Memory exhaustion inside the library is outside the model.
\<close>

datatype J_COLOR_SPACE =
    JCS_UNKNOWN | JCS_GRAYSCALE | JCS_RGB | JCS_YCbCr | JCS_CMYK | JCS_YCCK
  | JCS_EXT_RGB | JCS_EXT_RGBX | JCS_EXT_BGR | JCS_EXT_BGRX | JCS_EXT_XBGR | JCS_EXT_XRGB
  | JCS_EXT_RGBA | JCS_EXT_BGRA | JCS_EXT_ABGR | JCS_EXT_ARGB

record jpeg_decompress_struct =
  out_color_space :: J_COLOR_SPACE
  output_width :: uint
  output_height :: uint
  image_height :: uint
  scanline :: "nat \<Rightarrow> BYTE list"

record jpeg_compress_struct =
  cinfo_image_width :: uint
  cinfo_image_height :: uint
  input_components :: int
  in_color_space :: J_COLOR_SPACE
  num_components :: int
  dct_method_float :: bool
  cinfo_quality :: int

record libjpeg =
  read_header :: "BYTE list \<Rightarrow> jpeg_decompress_struct option"
  start_compress_ok :: "jpeg_compress_struct \<Rightarrow> bool"
  compressed :: "jpeg_compress_struct \<Rightarrow> cell list list \<Rightarrow> BYTE list"

text \<open>Handles and codec contexts that a sequence of calls leaves behind.\<close>

fun acquires_file :: "event \<Rightarrow> bool" where
  "acquires_file (Fopen p) = True"
| "acquires_file _ = False"

fun releases_file :: "event \<Rightarrow> bool" where
  "releases_file (Fclose p) = True"
| "releases_file _ = False"

fun acquires_codec :: "event \<Rightarrow> bool" where
  "acquires_codec Create_decompress = True"
| "acquires_codec Create_compress = True"
| "acquires_codec _ = False"

fun releases_codec :: "event \<Rightarrow> bool" where
  "releases_codec Destroy_decompress = True"
| "releases_codec Destroy_compress = True"
| "releases_codec _ = False"

definition open_files :: "event list \<Rightarrow> int" where
  "open_files es = int (length (filter acquires_file es)) - int (length (filter releases_file es))"

definition live_codecs :: "event list \<Rightarrow> int" where
  "live_codecs es = int (length (filter acquires_codec es)) - int (length (filter releases_codec es))"

section \<open>ImageFile\<close>

datatype Format = Format_UNKNOWN | Format_JPEG

text \<open>\<open>ImageFile::checkFileExtension\<close>.\<close>

definition checkFileExtension :: "string \<Rightarrow> Format" where
  "checkFileExtension path = (if path = [] then Format_UNKNOWN else Format_JPEG)"

text \<open>
  The switch on \<open>cInfo.out_color_space\<close> in \<open>loadJPEG\<close>; \<open>None\<close> is its default branch.
\<close>

fun decoded_color_space :: "J_COLOR_SPACE \<Rightarrow> ColorSpace option" where
  "decoded_color_space JCS_GRAYSCALE = Some GRAYSCALE"
| "decoded_color_space JCS_RGB = Some RGB"
| "decoded_color_space JCS_EXT_RGB = Some RGB"
| "decoded_color_space JCS_EXT_RGBA = Some RGBA"
| "decoded_color_space _ = None"

text \<open>
  The loop \<open>while (cInfo.output_scanline < cInfo.image_height)\<close> of \<open>loadJPEG\<close>:
  \<open>remaining\<close> is \<open>image_height - output_scanline\<close>, and the library stores the scanline
  at the row pointer \<open>image(row++, 0)\<close>.
\<close>

fun read_scanlines_loop ::
  "jpeg_decompress_struct \<Rightarrow> nat \<Rightarrow> nat \<Rightarrow> uint \<Rightarrow> Image \<Rightarrow> world \<Rightarrow> error + (Image \<times> world)"
where
  "read_scanlines_loop cInfo 0 output_scanline row img w = Inr (img, w)"
| "read_scanlines_loop cInfo (Suc remaining) output_scanline row img w =
     (case write_block (mData img) (pixelAt img row 0)
             (map Byte (scanline cInfo output_scanline)) of
        Inl e \<Rightarrow> Inl e
      | Inr d \<Rightarrow>
          read_scanlines_loop cInfo remaining (Suc output_scanline) (row + 1)
            (img\<lparr>mData := d\<rparr>) (emit [Read_scanlines output_scanline] w))"

text \<open>\<open>ImageFile::loadJPEG\<close>.\<close>

definition loadJPEG ::
  "libjpeg \<Rightarrow> world \<Rightarrow> string \<Rightarrow> Image \<Rightarrow> error + (bool \<times> Image \<times> world)"
where
  "loadJPEG lib w path img =
     (case fopen_rb w path of
        None \<Rightarrow> Inr (False, img, w)
      | Some (content, w1) \<Rightarrow>
          (case read_header lib content of
             None \<Rightarrow> Inl CodecExit
           | Some cInfo \<Rightarrow>
               (let w2 = emit [Create_decompress, Stdio_src, Read_header, Start_decompress] w1
                in case decoded_color_space (out_color_space cInfo) of
                     None \<Rightarrow>
                       Inr (False, img,
                            emit [Finish_decompress, Destroy_decompress, Fclose path] w2)
                   | Some colorSpace \<Rightarrow>
                       (case create img (output_width cInfo) (output_height cInfo)
                               colorSpace None of
                          Inl e \<Rightarrow> Inl e
                        | Inr img1 \<Rightarrow>
                            (case read_scanlines_loop cInfo (unat (image_height cInfo)) 0 0
                                    img1 w2 of
                               Inl e \<Rightarrow> Inl e
                             | Inr (img2, w3) \<Rightarrow>
                                 Inr (True, img2,
                                      emit [Finish_decompress, Destroy_decompress,
                                            Fclose path] w3))))))"

text \<open>
  The switch on \<open>image.getColorSpace()\<close> in \<open>saveJPEG\<close>; \<open>None\<close> is its default branch.
\<close>

fun encoded_color_space :: "ColorSpace \<Rightarrow> J_COLOR_SPACE option" where
  "encoded_color_space GRAYSCALE = Some JCS_GRAYSCALE"
| "encoded_color_space RGB = Some JCS_RGB"
| "encoded_color_space RGBA = Some JCS_EXT_RGBA"
| "encoded_color_space _ = None"

text \<open>
  The loop \<open>while (cinfo.next_scanline < cinfo.image_height)\<close> of \<open>saveJPEG\<close>: the library
  reads \<open>image_width * input_components\<close> samples from the row pointer \<open>image(row++, 0)\<close>.
\<close>

fun write_scanlines_loop ::
  "jpeg_compress_struct \<Rightarrow> nat \<Rightarrow> nat \<Rightarrow> uint \<Rightarrow> Image \<Rightarrow> world \<Rightarrow> cell list list \<Rightarrow>
   error + (cell list list \<times> world)"
where
  "write_scanlines_loop cinfo 0 next_scanline row img w rows = Inr (rows, w)"
| "write_scanlines_loop cinfo (Suc remaining) next_scanline row img w rows =
     (case read_block (mData img) (pixelAt img row 0)
             (unat (cinfo_image_width cinfo) * nat (input_components cinfo)) of
        Inl e \<Rightarrow> Inl e
      | Inr r \<Rightarrow>
          write_scanlines_loop cinfo remaining (Suc next_scanline) (row + 1) img
            (emit [Write_scanlines next_scanline] w) (rows @ [r]))"

text \<open>\<open>ImageFile::saveJPEG\<close>.\<close>

definition saveJPEG ::
  "libjpeg \<Rightarrow> world \<Rightarrow> string \<Rightarrow> Image \<Rightarrow> int \<Rightarrow> error + (bool \<times> world)"
where
  "saveJPEG lib w path img quality =
     (case fopen_wb w path of
        None \<Rightarrow> Inr (False, w)
      | Some w1 \<Rightarrow>
          (let w2 = emit [Create_compress, Stdio_dest] w1
           in case encoded_color_space (getColorSpace img) of
                None \<Rightarrow> Inr (False, w2)
              | Some jcs \<Rightarrow>
                  (let cinfo = \<lparr> cinfo_image_width = getWidth img,
                                 cinfo_image_height = getHeight img,
                                 input_components = getNumberOfChannels img,
                                 in_color_space = jcs,
                                 num_components = getNumberOfChannels img,
                                 dct_method_float = True,
                                 cinfo_quality = quality \<rparr>;
                       w3 = emit [Set_defaults, Set_quality quality] w2
                   in if \<not> start_compress_ok lib cinfo then Inl CodecExit
                      else
                        (case write_scanlines_loop cinfo (unat (cinfo_image_height cinfo)) 0 0
                                img (emit [Start_compress] w3) [] of
                           Inl e \<Rightarrow> Inl e
                         | Inr (rows, w4) \<Rightarrow>
                             Inr (True,
                                  emit [Finish_compress, Destroy_compress, Fclose path]
                                    (w4\<lparr> files := (files w4)(path \<mapsto>
                                                      compressed lib cinfo rows) \<rparr>))))))"

text \<open>\<open>ImageFile::load\<close> and \<open>ImageFile::save\<close>.\<close>

definition load ::
  "libjpeg \<Rightarrow> world \<Rightarrow> string \<Rightarrow> Image \<Rightarrow> error + (bool \<times> Image \<times> world)"
where
  "load lib w path img =
     (case checkFileExtension path of
        Format_JPEG \<Rightarrow> loadJPEG lib w path img
      | _ \<Rightarrow> Inr (False, img, w))"

definition save :: "libjpeg \<Rightarrow> world \<Rightarrow> string \<Rightarrow> Image \<Rightarrow> error + (bool \<times> world)" where
  "save lib w path img =
     (case checkFileExtension path of
        Format_JPEG \<Rightarrow> saveJPEG lib w path img 100
      | _ \<Rightarrow> Inr (False, w))"

section \<open>Concrete inputs\<close>

text \<open>
  A library that rejects everything, and a file system that holds one three-byte file
  and permits every access.
\<close>

definition strict_lib :: libjpeg where
  "strict_lib =
     \<lparr> read_header = (\<lambda>bytes. None), start_compress_ok = (\<lambda>cinfo. False),
       compressed = (\<lambda>cinfo rows. []) \<rparr>"

definition small_world :: world where
  "small_world =
     \<lparr> files = [''a.jpg'' \<mapsto> [1, 2, 3]], can_read = (\<lambda>path. True),
       can_write = (\<lambda>path. True), calls = [] \<rparr>"

text \<open>
  Three images as \<open>create\<close> leaves them: 1 x 1 with colour space \<open>UNKNOWN\<close>, 1 x 1
  grayscale and 2 x 2 RGB.
\<close>

definition unknown_1x1 :: Image where
  "unknown_1x1 =
     \<lparr> mColorSpace = UNKNOWN, mBpp = 0, mWidth = 1, mHeight = 1, mRowSize = 0,
       mNumberOfChannels = 0, mData = Some [] \<rparr>"

definition gray_1x1 :: Image where
  "gray_1x1 =
     \<lparr> mColorSpace = GRAYSCALE, mBpp = 8, mWidth = 1, mHeight = 1, mRowSize = 4,
       mNumberOfChannels = 1, mData = Some (replicate 4 Indeterminate) \<rparr>"

definition rgb_2x2 :: Image where
  "rgb_2x2 =
     \<lparr> mColorSpace = RGB, mBpp = 24, mWidth = 2, mHeight = 2, mRowSize = 8,
       mNumberOfChannels = 3, mData = Some (replicate 16 Indeterminate) \<rparr>"

text \<open>
  A 536870913 x 2 grayscale image as \<open>create\<close> leaves it: \<open>536870913 * 8 + 31\<close> wraps
  around to 39, so the row size is 4 and the array has 8 elements.
\<close>

definition wide_gray :: Image where
  "wide_gray =
     \<lparr> mColorSpace = GRAYSCALE, mBpp = 8, mWidth = 536870913, mHeight = 2, mRowSize = 4,
       mNumberOfChannels = 1, mData = Some (replicate 8 Indeterminate) \<rparr>"

section \<open>The state of an image after \<open>create\<close>\<close>

text \<open>
  \<open>well_formed\<close> holds of an image whose derived fields are what \<open>create\<close> and the
  allocating constructor compute from width, height and colour space, and whose array has
  \<open>mRowSize * mHeight\<close> elements. \<open>no_wrap\<close> says that neither the bit count of a row
  nor the element count of the array exceeds what an \<open>unsigned int\<close> holds.
\<close>

definition well_formed :: "Image \<Rightarrow> bool" where
  "well_formed img \<longleftrightarrow>
     mBpp img = calculateBpp (mColorSpace img) \<and>
     mNumberOfChannels img = calculateNumberOfChannels (mColorSpace img) \<and>
     mRowSize img = calculateRowSize (mWidth img) (mBpp img) \<and>
     allocated img = unat (mRowSize img * mHeight img)"

definition no_wrap :: "Image \<Rightarrow> bool" where
  "no_wrap img \<longleftrightarrow>
     unat (mWidth img) * nat (mBpp img) + 31 < 2 ^ 32 \<and>
     unat (mRowSize img) * unat (mHeight img) < 2 ^ 32"

section \<open>Properties of Image\<close>

lemma create_None:
  "create this0 width height colorSpace None =
     Inr \<lparr> mColorSpace = colorSpace, mBpp = calculateBpp colorSpace, mWidth = width,
           mHeight = height, mRowSize = calculateRowSize width (calculateBpp colorSpace),
           mNumberOfChannels = calculateNumberOfChannels colorSpace,
           mData = new_array
             (unat (calculateRowSize width (calculateBpp colorSpace) * height)) \<rparr>"
  by (simp add: create_def destroy_def Let_def)

lemma create_unknown_1x1: "create Image_ctor 1 1 UNKNOWN None = Inr unknown_1x1"
  by (simp add: create_None unknown_1x1_def calculateBpp_def calculateRowSize_def new_array_def)

lemma create_gray_1x1: "create Image_ctor 1 1 GRAYSCALE None = Inr gray_1x1"
  by (simp add: create_None gray_1x1_def calculateBpp_def calculateRowSize_def new_array_def)

lemma create_rgb_2x2: "create Image_ctor 2 2 RGB None = Inr rgb_2x2"
  by (simp add: create_None rgb_2x2_def calculateBpp_def calculateRowSize_def new_array_def)

subsection \<open>The row size\<close>

lemma mask_5_word: "(31 :: uint) = mask 5"
  by (simp add: mask_eq_exp_minus_1)

lemma drop_bit_and_not_31:
  "drop_bit 3 ((x :: uint) AND NOT 31) = push_bit 2 (drop_bit 5 x)"
  unfolding mask_5_word
  by (rule bit_eqI) (auto simp add: bit_simps dest: bit_imp_le_length)

lemma unat_drop_bit_and_not_31:
  "unat (drop_bit 3 ((x :: uint) AND NOT 31)) = unat x div 32 * 4"
proof -
  have lt: "unat x div 32 < 2 ^ 27"
    using unsigned_less [of x, where 'a = nat] by simp
  have "unat (drop_bit 3 (x AND NOT 31)) = unat (push_bit 2 (drop_bit 5 x))"
    by (simp only: drop_bit_and_not_31)
  also have "\<dots> = take_bit 32 (push_bit 2 (unat x div 32))"
    by (simp add: unsigned_push_bit_eq unat_drop_bit_eq drop_bit_eq_div unat_div)
  also have "\<dots> = unat x div 32 * 4"
    using lt by (simp add: push_bit_eq_mult take_bit_nat_eq_self_iff)
  finally show ?thesis .
qed

lemma unat_calculateRowSize:
  "unat (calculateRowSize width bpp) = unat (width * word_of_int bpp + 31) div 32 * 4"
  by (simp only: calculateRowSize_def unat_drop_bit_and_not_31)



subsection \<open>The empty state\<close>



subsection \<open>An image without a colour space\<close>

text \<open>
  Claim C10. \<open>create\<close> with positive width and height and the colour space \<open>UNKNOWN\<close>
  succeeds; the image reports that width and height, but has no channels, 0 bits per
  pixel, row size 0 and an array of length zero. Whatever the coordinates, loading or
  storing even one element through the pixel pointer is out of bounds.
\<close>

theorem C10_create_unknown:
  "0 < width \<Longrightarrow> 0 < height \<Longrightarrow>
   \<exists>img. create this0 width height UNKNOWN None = Inr img
     \<and> getWidth img = width \<and> getHeight img = height
     \<and> getNumberOfChannels img = 0 \<and> mBpp img = 0 \<and> getRowSize img = 0
     \<and> getData img = Some [] \<and> allocated img = 0
     \<and> (\<forall>row column n. 0 < n \<longrightarrow>
           read_block (getData img) (pixelAt img row column) n = Inl OutOfBounds)
     \<and> (\<forall>row column vs. vs \<noteq> [] \<longrightarrow>
           write_block (getData img) (pixelAt img row column) vs = Inl OutOfBounds)"
  by (simp add: create_None calculateBpp_def calculateRowSize_def new_array_def
        getWidth_def getHeight_def getNumberOfChannels_def getRowSize_def getData_def
        allocated_def read_block_def write_block_def)

theorem C10_create_unknown_witness:
  "(0 :: uint) < 4 \<and> (0 :: uint) < 3
   \<and> (\<exists>img. create Image_ctor 4 3 UNKNOWN None = Inr img
         \<and> getWidth img = 4 \<and> getHeight img = 3 \<and> getRowSize img = 0 \<and> allocated img = 0
         \<and> read_block (getData img) (pixelAt img 2 3) 1 = Inl OutOfBounds)"
  using C10_create_unknown [of 4 3 Image_ctor] by auto

subsection \<open>The length of the data array\<close>

text \<open>
  The default constructor, \<open>destroy\<close>, \<open>create\<close> and both constructors that allocate
  leave an array of exactly \<open>mRowSize * mHeight\<close> elements (the product in
  \<open>unsigned int\<close>, as \<open>new\<close> receives it).
\<close>

lemma memcpy_length:
  "memcpy dst src n = Inr dst' \<Longrightarrow>
   (case dst' of None \<Rightarrow> 0 | Some xs \<Rightarrow> length xs) = (case dst of None \<Rightarrow> 0 | Some xs \<Rightarrow> length xs)"
  by (auto simp add: memcpy_def split: if_splits option.splits)

lemma allocated_Image_ctor:
  "allocated Image_ctor = unat (getRowSize Image_ctor * getHeight Image_ctor)"
  by (simp add: allocated_def Image_ctor_def getRowSize_def getHeight_def)

lemma allocated_destroy:
  "allocated (destroy img) = unat (getRowSize (destroy img) * getHeight (destroy img))"
  by (simp add: allocated_def destroy_def getRowSize_def getHeight_def)

lemma allocated_create:
  "create this0 width height colorSpace data = Inr img \<Longrightarrow>
   allocated img = unat (getRowSize img * getHeight img)"
  by (auto simp add: create_def destroy_def Let_def allocated_def new_array_def
        getRowSize_def getHeight_def
        split: option.splits sum.splits dest!: memcpy_length)

lemma allocated_Image_ctor_data:
  "Image_ctor_data width height colorSpace data = Inr img \<Longrightarrow>
   allocated img = unat (getRowSize img * getHeight img)"
  by (auto simp add: Image_ctor_data_def Let_def allocated_def new_array_def
        getRowSize_def getHeight_def
        split: option.splits sum.splits dest!: memcpy_length)

lemma allocated_Image_copy:
  "Image_copy img = Inr img' \<Longrightarrow> allocated img' = unat (getRowSize img' * getHeight img')"
  unfolding Image_copy_def by (rule allocated_Image_ctor_data)

text \<open>
  In \<open>operator=\<close> the comparison \<open>sourceSize != destSize\<close> reads the destination's row
  size and height after they were overwritten with the source's, so both sides are the
  same product and the branch that allocates is never taken: the assignment is the
  \<open>memcpy\<close> into the array the destination already has.
\<close>

lemma operator_assign_eq:
  "operator_assign this0 img =
     (case memcpy (mData this0) (mData img) (unat (mRowSize img * mHeight img)) of
        Inl e \<Rightarrow> Inl e
      | Inr d \<Rightarrow> Inr (img\<lparr>mData := d\<rparr>))"
  by (cases this0, cases img) (simp add: operator_assign_def Let_def split: sum.splits)

lemma operator_assign_keeps_array:
  assumes "operator_assign this0 img = Inr this'"
  shows "allocated this' = allocated this0"
proof -
  from assms obtain d where
    d: "memcpy (mData this0) (mData img) (unat (mRowSize img * mHeight img)) = Inr d"
    and this': "this' = img\<lparr>mData := d\<rparr>"
    by (auto simp add: operator_assign_eq split: sum.splits)
  from memcpy_length [OF d] this' show ?thesis
    by (simp add: allocated_def)
qed

lemma replicate_4_12: "replicate 4 x @ replicate 12 x = replicate 16 x"
  by (simp flip: replicate_add)

text \<open>
  Claim C2 says that the data array always has \<open>stride * height\<close> elements, also after
  an assignment from a source of another size. Evaluated on a 2 x 2 RGB destination (16
  elements) and a 1 x 1 grayscale source (row size 4): the assignment returns, the
  destination now has row size 4 and height 1, and its array still has 16 elements.
\<close>

theorem C2_assign_allocation:
  "create Image_ctor 2 2 RGB None = Inr rgb_2x2
   \<and> create Image_ctor 1 1 GRAYSCALE None = Inr gray_1x1
   \<and> allocated rgb_2x2 = unat (getRowSize rgb_2x2 * getHeight rgb_2x2)
   \<and> operator_assign rgb_2x2 gray_1x1 = Inr (gray_1x1\<lparr> mData := mData rgb_2x2 \<rparr>)
   \<and> allocated (gray_1x1\<lparr> mData := mData rgb_2x2 \<rparr>) = 16
   \<and> unat (getRowSize (gray_1x1\<lparr> mData := mData rgb_2x2 \<rparr>)
           * getHeight (gray_1x1\<lparr> mData := mData rgb_2x2 \<rparr>)) = 4"
  by (intro conjI create_rgb_2x2 create_gray_1x1)
     (simp_all add: operator_assign_eq memcpy_def allocated_def
        rgb_2x2_def gray_1x1_def getRowSize_def getHeight_def replicate_4_12)

text \<open>
  Claim C4 says that assignment allocates a new array exactly when the destination's
  allocated size differs from the source's \<open>stride * height\<close>, and then holds a copy of
  the source. Evaluated on a default-constructed destination (no array, size 0) and the
  1 x 1 grayscale source (4 elements): no array is allocated, and the copy of 4 bytes
  goes through the null pointer.
\<close>

theorem C4_assign_no_realloc:
  "create Image_ctor 1 1 GRAYSCALE None = Inr gray_1x1
   \<and> allocated Image_ctor = 0
   \<and> unat (getRowSize gray_1x1 * getHeight gray_1x1) = 4
   \<and> operator_assign Image_ctor gray_1x1 = Inl OutOfBounds"
  by (rule conjI [OF create_gray_1x1])
     (simp add: operator_assign_def memcpy_def allocated_def
        Image_ctor_def gray_1x1_def getRowSize_def getHeight_def)

subsection \<open>Pixel access\<close>

lemma create_wide_gray: "create Image_ctor 536870913 2 GRAYSCALE None = Inr wide_gray"
  by (simp add: create_None wide_gray_def calculateBpp_def calculateRowSize_def new_array_def)

lemma well_formed_rgb_2x2: "well_formed rgb_2x2 \<and> no_wrap rgb_2x2"
  by (simp add: well_formed_def no_wrap_def rgb_2x2_def calculateBpp_def calculateRowSize_def
        allocated_def)

lemma create_well_formed:
  "create this0 width height colorSpace data = Inr img \<Longrightarrow> well_formed img"
  using allocated_create [of this0 width height colorSpace data img]
  by (auto simp add: well_formed_def create_def destroy_def Let_def getRowSize_def getHeight_def
        split: option.splits sum.splits)

lemma read_written_block:
  assumes "off + length vs \<le> length d"
  shows "take (length vs) (drop off (take off d @ vs @ drop (off + length vs) d)) = vs"
  using assms by simp

lemma read_other_block:
  assumes "off + length vs \<le> length d"
    and "off' + n \<le> off \<or> off + length vs \<le> off'"
  shows "take n (drop off' (take off d @ vs @ drop (off + length vs) d)) = take n (drop off' d)"
  using assms(2)
proof
  assume before: "off' + n \<le> off"
  have len: "off \<le> length d" using assms(1) by simp
  have "take n (drop off' (take off d @ vs @ drop (off + length vs) d))
          = take n (drop off' (take off d))"
    using before len by simp
  also have "\<dots> = take n (take (off - off') (drop off' d))"
    by (simp add: drop_take)
  also have "\<dots> = take n (drop off' d)"
    using before by (simp add: min_def)
  finally show ?thesis .
next
  assume after: "off + length vs \<le> off'"
  with assms(1) show ?thesis
    by (simp add: min_def)
qed

lemma blocks_disjoint:
  fixes a b a' b' R ch :: nat
  assumes b: "b * ch + ch \<le> R" and b': "b' * ch + ch \<le> R" and ne: "(a, b) \<noteq> (a', b')"
  shows "a' * R + b' * ch + ch \<le> a * R + b * ch \<or> a * R + b * ch + ch \<le> a' * R + b' * ch"
proof -
  consider "a < a'" | "a' < a" | "a = a'" "b < b'" | "a = a'" "b' < b"
    using ne by (cases a a' rule: linorder_cases; cases b b' rule: linorder_cases) auto
  then show ?thesis
  proof cases
    case 1
    then have "Suc a * R \<le> a' * R" by (intro mult_le_mono1) simp
    with b show ?thesis by simp
  next
    case 2
    then have "Suc a' * R \<le> a * R" by (intro mult_le_mono1) simp
    with b' show ?thesis by simp
  next
    case 3
    then have "Suc b * ch \<le> b' * ch" by (intro mult_le_mono1) simp
    with 3 show ?thesis by simp
  next
    case 4
    then have "Suc b' * ch \<le> b * ch" by (intro mult_le_mono1) simp
    with 4 show ?thesis by simp
  qed
qed

lemma channels_positive:
  "colorSpace \<in> {GRAYSCALE, RGB, RGBA} \<Longrightarrow>
   calculateNumberOfChannels colorSpace \<in> {1, 3, 4}"
  by auto

lemma row_holds_pixels:
  assumes wf: "well_formed img" and nw: "no_wrap img"
    and cs: "mColorSpace img \<in> {GRAYSCALE, RGB, RGBA}"
  shows "unat (mWidth img) * nat (mNumberOfChannels img) \<le> unat (mRowSize img)"
proof -
  let ?W = "unat (mWidth img)"
  let ?ch = "nat (mNumberOfChannels img)"
  have ch: "mNumberOfChannels img \<in> {1, 3, 4}"
    using wf cs channels_positive by (simp add: well_formed_def)
  have bpp: "mBpp img = 8 * mNumberOfChannels img"
    using wf by (simp add: well_formed_def calculateBpp_def)
  have bppw: "unat (word_of_int (mBpp img) :: uint) = 8 * ?ch"
    using ch by (auto simp add: bpp)
  have bits: "?W * (8 * ?ch) + 31 < 2 ^ 32"
    using nw ch by (auto simp add: no_wrap_def bpp)
  have p32: "(2 :: nat) ^ 32 = 4294967296"
    by simp
  have "?W * (8 * ?ch) < 4294967296"
    using bits unfolding p32 by linarith
  then have "unat (mWidth img * word_of_int (mBpp img)) = ?W * (8 * ?ch)"
    by (simp add: unat_word_ariths bppw)
  then have "unat (mWidth img * word_of_int (mBpp img) + 31) = ?W * (8 * ?ch) + 31"
    using bits by (simp add: unat_word_ariths)
  then have "unat (mRowSize img) = (8 * (?W * ?ch) + 31) div 32 * 4"
    using wf by (simp add: well_formed_def unat_calculateRowSize mult.left_commute)
  then show ?thesis by presburger
qed

lemma pixelAt_offset:
  assumes wf: "well_formed img" and nw: "no_wrap img"
    and cs: "mColorSpace img \<in> {GRAYSCALE, RGB, RGBA}"
    and r: "r < mHeight img" and c: "c < mWidth img"
  shows "pixelAt img r c = unat r * unat (mRowSize img) + unat c * nat (mNumberOfChannels img)
         \<and> unat c * nat (mNumberOfChannels img) + nat (mNumberOfChannels img) \<le> unat (mRowSize img)
         \<and> pixelAt img r c + nat (mNumberOfChannels img) \<le> allocated img"
proof -
  let ?R = "unat (mRowSize img)"
  let ?H = "unat (mHeight img)"
  let ?ch = "nat (mNumberOfChannels img)"
  have ch: "mNumberOfChannels img \<in> {1, 3, 4}"
    using wf cs channels_positive by (simp add: well_formed_def)
  have chw: "unat (word_of_int (mNumberOfChannels img) :: uint) = ?ch"
    using ch by auto
  have rn: "Suc (unat r) \<le> ?H" and cn: "Suc (unat c) \<le> unat (mWidth img)"
    using r c by (simp_all add: word_less_nat_alt)
  have "Suc (unat c) * ?ch \<le> unat (mWidth img) * ?ch"
    using cn by (rule mult_le_mono1)
  with row_holds_pixels [OF wf nw cs]
  have col: "unat c * ?ch + ?ch \<le> ?R" by simp
  have "Suc (unat r) * ?R \<le> ?H * ?R"
    using rn by (rule mult_le_mono1)
  then have row: "unat r * ?R + ?R \<le> ?R * ?H" by (simp add: mult.commute)
  have total: "?R * ?H < 2 ^ 32"
    using nw by (simp add: no_wrap_def)
  have alloc: "allocated img = ?R * ?H"
    using wf total by (simp add: well_formed_def unat_word_ariths)
  have "unat (r * mRowSize img) = unat r * ?R"
    using row total by (simp add: unat_word_ariths)
  moreover have "unat (c * word_of_int (mNumberOfChannels img)) = unat c * ?ch"
    using col row total by (simp add: unat_word_ariths chw)
  ultimately have "pixelAt img r c = unat r * ?R + unat c * ?ch"
    using col row total by (simp add: pixelAt_def unat_word_ariths)
  with col row alloc show ?thesis by simp
qed

lemma pixelAt_mData: "pixelAt (img\<lparr>mData := buf\<rparr>) row column = pixelAt img row column"
  by (simp add: pixelAt_def)

lemma read_block_Some:
  "0 < n \<Longrightarrow> off + n \<le> length d \<Longrightarrow> read_block (Some d) off n = Inr (take n (drop off d))"
  by (simp add: read_block_def)

lemma write_block_Some:
  "vs \<noteq> [] \<Longrightarrow> off + length vs \<le> length d \<Longrightarrow>
   write_block (Some d) off vs = Inr (Some (take off d @ vs @ drop (off + length vs) d))"
  by (simp add: write_block_def)

text \<open>
  Claim C7, as the specification has it, holds of every image with one of the three
  colour spaces. In the 536870913 x 2 grayscale image the pixels (0, 4) and (1, 0) are
  both inside the image and share the offset 4, so a value stored at (1, 0) is read back
  at (0, 4); and the pixel (0, 8), also inside the image, lies outside the array.
\<close>

theorem C7_counterexample:
  "create Image_ctor 536870913 2 GRAYSCALE None = Inr wide_gray
   \<and> (0 :: uint) < getHeight wide_gray \<and> (4 :: uint) < getWidth wide_gray
   \<and> (1 :: uint) < getHeight wide_gray \<and> (0 :: uint) < getWidth wide_gray
   \<and> readPixel wide_gray 0 4 = Inr [Indeterminate]
   \<and> writePixel wide_gray 1 0 [7] =
        Inr (wide_gray\<lparr> mData :=
               Some (replicate 4 Indeterminate @ Byte 7 # replicate 3 Indeterminate) \<rparr>)
   \<and> readPixel (wide_gray\<lparr> mData :=
               Some (replicate 4 Indeterminate @ Byte 7 # replicate 3 Indeterminate) \<rparr>) 0 4
       = Inr [Byte 7]
   \<and> (8 :: uint) < getWidth wide_gray
   \<and> writePixel wide_gray 0 8 [7] = Inl OutOfBounds"
  by (intro conjI create_wide_gray)
     (simp_all add: wide_gray_def getHeight_def getWidth_def readPixel_def writePixel_def
        read_block_def write_block_def pixelAt_def)

text \<open>
  Claim C7, amended. Take an image in the state \<open>create\<close> leaves it in, with colour
  space grayscale, RGB or RGBA, whose row and array sizes do not wrap around \<open>2^32\<close>.
  For every row below the height and column below the width, storing as many values as
  the image has channels through the pixel pointer succeeds, reading the pixel back
  yields exactly those values, and every other pixel inside the image reads as before.
  The image stays in such a state, so the same holds after any number of stores.
\<close>

theorem C7_pixel_roundtrip:
  assumes wf: "well_formed img" and nw: "no_wrap img"
    and cs: "getColorSpace img \<in> {GRAYSCALE, RGB, RGBA}"
    and r: "r < getHeight img" and c: "c < getWidth img"
    and len: "length vs = nat (getNumberOfChannels img)"
  shows "\<exists>img'. writePixel img r c vs = Inr img'
           \<and> readPixel img' r c = Inr (map Byte vs)
           \<and> (\<forall>r' c'. r' < getHeight img \<and> c' < getWidth img \<and> (r', c') \<noteq> (r, c) \<longrightarrow>
                  readPixel img' r' c' = readPixel img r' c')
           \<and> well_formed img' \<and> no_wrap img'
           \<and> getColorSpace img' = getColorSpace img
           \<and> getWidth img' = getWidth img \<and> getHeight img' = getHeight img"
proof -
  define ch where "ch = nat (mNumberOfChannels img)"
  define R where "R = unat (mRowSize img)"
  define off where "off = pixelAt img r c"
  define bs where "bs = map Byte vs"
  note cs' = cs [unfolded getColorSpace_def]
  note r' = r [unfolded getHeight_def]
  note c' = c [unfolded getWidth_def]
  have geo: "off = unat r * R + unat c * ch" "unat c * ch + ch \<le> R"
            "off + ch \<le> allocated img"
    using pixelAt_offset [OF wf nw cs' r' c'] by (simp_all add: ch_def R_def off_def)
  have chpos: "0 < ch"
    using wf cs' channels_positive [of "mColorSpace img"]
    by (auto simp add: well_formed_def ch_def)
  have lenbs: "length bs = ch"
    using len by (simp add: getNumberOfChannels_def bs_def ch_def)
  have bsne: "bs \<noteq> []"
    using lenbs chpos by auto
  obtain d where d: "mData img = Some d"
    using geo(3) chpos by (cases "mData img") (simp_all add: allocated_def)
  have lend: "length d = allocated img"
    using d by (simp add: allocated_def)
  define d' where "d' = take off d @ bs @ drop (off + length bs) d"
  define img' where "img' = img\<lparr>mData := Some d'\<rparr>"
  have fits: "off + length bs \<le> length d"
    using geo(3) lend lenbs by simp
  have lend': "length d' = length d"
    using fits by (simp add: d'_def)
  have written: "writePixel img r c vs = Inr img'"
    using write_block_Some [OF bsne fits]
    by (simp add: writePixel_def d img'_def d'_def off_def bs_def)
  have rd: "readPixel img' x y = read_block (Some d') (pixelAt img x y) ch" for x y
    by (simp add: readPixel_def img'_def pixelAt_mData ch_def)
  have rd0: "readPixel img x y = read_block (Some d) (pixelAt img x y) ch" for x y
    by (simp add: readPixel_def d ch_def)
  have "read_block (Some d') off ch = Inr (take ch (drop off d'))"
    using chpos fits lend' lenbs by (intro read_block_Some) simp_all
  also have "take ch (drop off d') = bs"
    using read_written_block [OF fits] by (simp add: d'_def lenbs)
  finally have same: "readPixel img' r c = Inr (map Byte vs)"
    by (simp add: rd off_def bs_def)
  have other: "readPixel img' x y = readPixel img x y"
    if x: "x < mHeight img" and y: "y < mWidth img" and ne: "(x, y) \<noteq> (r, c)" for x y
  proof -
    define off' where "off' = pixelAt img x y"
    have geo': "off' = unat x * R + unat y * ch" "unat y * ch + ch \<le> R"
               "off' + ch \<le> allocated img"
      using pixelAt_offset [OF wf nw cs' x y] by (simp_all add: ch_def R_def off'_def)
    have "(unat r, unat c) \<noteq> (unat x, unat y)"
      using ne by (auto simp add: word_unat_eq_iff)
    from blocks_disjoint [OF geo(2) geo'(2) this]
    have "off' + ch \<le> off \<or> off + length bs \<le> off'"
      by (simp add: geo(1) geo'(1) lenbs)
    from read_other_block [OF fits this]
    have eq: "take ch (drop off' d') = take ch (drop off' d)"
      by (simp add: d'_def)
    have "read_block (Some d') off' ch = Inr (take ch (drop off' d'))"
      using chpos geo'(3) lend lend' by (intro read_block_Some) simp_all
    moreover have "read_block (Some d) off' ch = Inr (take ch (drop off' d))"
      using chpos geo'(3) lend by (intro read_block_Some) simp_all
    ultimately show ?thesis
      using eq by (simp add: rd rd0 off'_def)
  qed
  have wf': "well_formed img'"
    using wf lend' d by (simp add: well_formed_def allocated_def img'_def)
  have nw': "no_wrap img'"
    using nw by (simp add: no_wrap_def img'_def)
  have layout: "getColorSpace img' = getColorSpace img" "getWidth img' = getWidth img"
    "getHeight img' = getHeight img"
    by (simp_all add: getColorSpace_def getWidth_def getHeight_def img'_def)
  show ?thesis
    using written same other wf' nw' layout
    by (intro exI [of _ img']) (simp add: getWidth_def getHeight_def)
qed

theorem C7_pixel_roundtrip_witness:
  "(well_formed rgb_2x2 \<and> no_wrap rgb_2x2 \<and> getColorSpace rgb_2x2 \<in> {GRAYSCALE, RGB, RGBA}
    \<and> 1 < getHeight rgb_2x2 \<and> 1 < getWidth rgb_2x2
    \<and> length [10, 20, 30 :: BYTE] = nat (getNumberOfChannels rgb_2x2)
    \<and> 0 < getHeight rgb_2x2 \<and> (0 :: uint, 1 :: uint) \<noteq> (1, 1))
   \<and> (\<exists>img'. writePixel rgb_2x2 1 1 [10, 20, 30] = Inr img'
         \<and> readPixel img' 1 1 = Inr [Byte 10, Byte 20, Byte 30]
         \<and> readPixel img' 0 1 = readPixel rgb_2x2 0 1)"
proof -
  have h: "well_formed rgb_2x2" "no_wrap rgb_2x2"
    "getColorSpace rgb_2x2 \<in> {GRAYSCALE, RGB, RGBA}"
    "1 < getHeight rgb_2x2" "1 < getWidth rgb_2x2"
    "length [10, 20, 30 :: BYTE] = nat (getNumberOfChannels rgb_2x2)"
    using well_formed_rgb_2x2
    by (simp_all add: rgb_2x2_def getColorSpace_def getHeight_def getWidth_def
          getNumberOfChannels_def)
  have v: "0 < getHeight rgb_2x2" "(0 :: uint, 1 :: uint) \<noteq> (1, 1)"
    by (simp_all add: rgb_2x2_def getHeight_def)
  from C7_pixel_roundtrip [OF h] obtain img' where
    "writePixel rgb_2x2 1 1 [10, 20, 30] = Inr img'"
    "readPixel img' 1 1 = Inr (map Byte [10, 20, 30])"
    "\<forall>r' c'. r' < getHeight rgb_2x2 \<and> c' < getWidth rgb_2x2 \<and> (r', c') \<noteq> (1, 1) \<longrightarrow>
        readPixel img' r' c' = readPixel rgb_2x2 r' c'"
    by blast
  with h v show ?thesis by auto
qed

section \<open>Properties of ImageFile\<close>

text \<open>
  Claim C8. When the path cannot be opened for reading, \<open>load\<close> returns false, and the
  image it was given is returned as it was, every field and the data included; the
  environment is untouched as well.
\<close>

theorem C8_load_unopenable:
  "fopen_rb w path = None \<Longrightarrow> load lib w path img = Inr (False, img, w)"
  by (simp add: load_def loadJPEG_def checkFileExtension_def)

theorem C8_load_unopenable_witness:
  "fopen_rb small_world ''missing.jpg'' = None
   \<and> load strict_lib small_world ''missing.jpg'' rgb_2x2 = Inr (False, rgb_2x2, small_world)"
proof -
  have h: "fopen_rb small_world ''missing.jpg'' = None"
    by (simp add: fopen_rb_def small_world_def)
  show ?thesis using h C8_load_unopenable [OF h] by simp
qed

text \<open>
  Claim C9. The empty path is classified as the unknown format, and \<open>load\<close> and \<open>save\<close>
  then return false and leave the environment as it was, so no codec call is made. Every
  other path is classified as JPEG whatever its suffix; \<open>load\<close> is then \<open>loadJPEG\<close>
  and \<open>save\<close> is \<open>saveJPEG\<close> with quality 100.
\<close>

theorem C9_dispatch:
  "checkFileExtension [] = Format_UNKNOWN
   \<and> load lib w [] img = Inr (False, img, w)
   \<and> save lib w [] img = Inr (False, w)
   \<and> (path \<noteq> [] \<longrightarrow>
        checkFileExtension path = Format_JPEG
        \<and> load lib w path img = loadJPEG lib w path img
        \<and> save lib w path img = saveJPEG lib w path img 100)"
  by (simp add: checkFileExtension_def load_def save_def)

theorem C9_dispatch_witness:
  "''notes.txt'' \<noteq> []
   \<and> checkFileExtension ''notes.txt'' = Format_JPEG
   \<and> load strict_lib small_world ''notes.txt'' rgb_2x2
       = loadJPEG strict_lib small_world ''notes.txt'' rgb_2x2
   \<and> save strict_lib small_world ''notes.txt'' rgb_2x2
       = saveJPEG strict_lib small_world ''notes.txt'' rgb_2x2 100"
  using C9_dispatch [of strict_lib small_world rgb_2x2 "''notes.txt''"] by simp

subsection \<open>File handles and codec contexts\<close>

lemma read_scanlines_loop_resources:
  "read_scanlines_loop cInfo n k row img w = Inr (img', w') \<Longrightarrow>
   open_files (calls w') = open_files (calls w) \<and> live_codecs (calls w') = live_codecs (calls w)"
proof (induction n arbitrary: k row img w)
  case 0
  then show ?case by simp
next
  case (Suc n)
  then show ?case
    by (auto simp add: emit_def open_files_def live_codecs_def split: sum.splits)
qed

lemma write_scanlines_loop_resources:
  "write_scanlines_loop cinfo n k row img w rows = Inr (rows', w') \<Longrightarrow>
   open_files (calls w') = open_files (calls w) \<and> live_codecs (calls w') = live_codecs (calls w)
   \<and> can_write w' = can_write w"
proof (induction n arbitrary: k row w rows)
  case 0
  then show ?case by simp
next
  case (Suc n)
  then show ?case
    by (auto simp add: emit_def open_files_def live_codecs_def split: sum.splits)
qed

lemma open_files_emit: "open_files (calls (emit es w)) = open_files (calls w) + open_files es"
  by (simp add: emit_def open_files_def)

lemma live_codecs_emit: "live_codecs (calls (emit es w)) = live_codecs (calls w) + live_codecs es"
  by (simp add: emit_def live_codecs_def)

lemma fopen_rb_Some:
  "fopen_rb w path = Some (content, w1) \<Longrightarrow> w1 = emit [Fopen path] w"
  by (auto simp add: fopen_rb_def split: option.splits if_splits)

lemma fopen_wb_Some:
  "fopen_wb w path = Some w1 \<Longrightarrow> calls w1 = calls w @ [Fopen path]"
  by (auto simp add: fopen_wb_def emit_def split: if_splits)

text \<open>
  Whenever \<open>loadJPEG\<close> returns, it has closed the file it opened and destroyed the
  decompression object it created; so has \<open>saveJPEG\<close> when the image's colour space is
  one of the three it encodes.
\<close>

lemma loadJPEG_releases:
  assumes ret: "loadJPEG lib w path img = Inr (b, img', w')"
  shows "open_files (calls w') = open_files (calls w) \<and> live_codecs (calls w') = live_codecs (calls w)"
proof (cases "fopen_rb w path")
  case None
  with ret show ?thesis by (simp add: loadJPEG_def)
next
  case (Some opened)
  obtain content w1 where opened: "opened = (content, w1)" by (cases opened)
  have w1: "w1 = emit [Fopen path] w"
    using Some opened by (simp add: fopen_rb_Some)
  show ?thesis
  proof (cases "read_header lib content")
    case None
    with ret Some opened show ?thesis by (simp add: loadJPEG_def)
  next
    case hdr: (Some cInfo)
    let ?w2 = "emit [Create_decompress, Stdio_src, Read_header, Start_decompress] w1"
    let ?fin = "[Finish_decompress, Destroy_decompress, Fclose path]"
    show ?thesis
    proof (cases "decoded_color_space (out_color_space cInfo)")
      case None
      with ret Some opened hdr have "w' = emit ?fin ?w2"
        by (simp add: loadJPEG_def)
      then show ?thesis
        by (simp add: w1 open_files_emit live_codecs_emit)
           (simp add: open_files_def live_codecs_def)
    next
      case cs: (Some colorSpace)
      obtain img1 where img1:
        "create img (output_width cInfo) (output_height cInfo) colorSpace None = Inr img1"
        by (simp add: create_None)
      from ret Some opened hdr cs img1 obtain w3 where
        loop: "read_scanlines_loop cInfo (unat (image_height cInfo)) 0 0 img1 ?w2 = Inr (img', w3)"
        and w': "w' = emit ?fin w3"
        by (auto simp add: loadJPEG_def split: sum.splits)
      from read_scanlines_loop_resources [OF loop] w' show ?thesis
        by (simp add: w1 open_files_emit live_codecs_emit)
           (simp add: open_files_def live_codecs_def)
    qed
  qed
qed

lemma saveJPEG_releases:
  assumes ret: "saveJPEG lib w path img quality = Inr (b, w')"
    and cs: "encoded_color_space (getColorSpace img) = Some jcs"
  shows "open_files (calls w') = open_files (calls w) \<and> live_codecs (calls w') = live_codecs (calls w)"
proof (cases "fopen_wb w path")
  case None
  with ret show ?thesis by (simp add: saveJPEG_def)
next
  case (Some w1)
  let ?cinfo = "\<lparr> cinfo_image_width = getWidth img, cinfo_image_height = getHeight img,
                   input_components = getNumberOfChannels img, in_color_space = jcs,
                   num_components = getNumberOfChannels img, dct_method_float = True,
                   cinfo_quality = quality \<rparr>"
  let ?w3 = "emit [Start_compress] (emit [Set_defaults, Set_quality quality]
               (emit [Create_compress, Stdio_dest] w1))"
  from ret Some cs obtain rows w4 where
    loop: "write_scanlines_loop ?cinfo (unat (cinfo_image_height ?cinfo)) 0 0 img ?w3 [] = Inr (rows, w4)"
    and w': "w' = emit [Finish_compress, Destroy_compress, Fclose path]
                   (w4\<lparr> files := (files w4)(path \<mapsto> compressed lib ?cinfo rows) \<rparr>)"
    by (auto simp add: saveJPEG_def Let_def split: if_splits sum.splits)
  from write_scanlines_loop_resources [OF loop] w' fopen_wb_Some [OF Some] show ?thesis
    by (simp add: open_files_emit live_codecs_emit)
       (simp add: open_files_def live_codecs_def emit_def)
qed

text \<open>
  The default branch of the colour-space switch in \<open>saveJPEG\<close> returns at once, after
  the file was opened and the compression object created.
\<close>

lemma saveJPEG_unsupported:
  assumes "encoded_color_space (getColorSpace img) = None" and "can_write w path"
  shows "saveJPEG lib w path img quality =
           Inr (False, emit [Fopen path, Create_compress, Stdio_dest]
                         (w\<lparr> files := (files w)(path \<mapsto> []) \<rparr>))"
  using assms by (simp add: saveJPEG_def fopen_wb_def emit_def)

text \<open>
  Claim C1 says that every return of \<open>loadJPEG\<close> and \<open>saveJPEG\<close> after the file was
  opened finds the file closed and the codec context destroyed. Evaluated on the 1 x 1
  image of colour space \<open>UNKNOWN\<close> and a writable path: \<open>saveJPEG\<close> returns false with
  one file handle still open and one compression object still alive.
\<close>

theorem C1_saveJPEG_leak:
  "create Image_ctor 1 1 UNKNOWN None = Inr unknown_1x1
   \<and> saveJPEG lib small_world ''out.jpg'' unknown_1x1 100 =
        Inr (False, emit [Fopen ''out.jpg'', Create_compress, Stdio_dest]
                      (small_world\<lparr> files := (files small_world)(''out.jpg'' \<mapsto> []) \<rparr>))
   \<and> open_files (calls small_world) = 0 \<and> live_codecs (calls small_world) = 0
   \<and> open_files (calls (emit [Fopen ''out.jpg'', Create_compress, Stdio_dest]
                      (small_world\<lparr> files := (files small_world)(''out.jpg'' \<mapsto> []) \<rparr>))) = 1
   \<and> live_codecs (calls (emit [Fopen ''out.jpg'', Create_compress, Stdio_dest]
                      (small_world\<lparr> files := (files small_world)(''out.jpg'' \<mapsto> []) \<rparr>))) = 1"
  by (simp add: create_unknown_1x1 saveJPEG_def fopen_wb_def emit_def small_world_def
        unknown_1x1_def getColorSpace_def open_files_def live_codecs_def)

subsection \<open>Saving an image without a colour space\<close>

text \<open>
  Claim C3, as the specification has it, says that \<open>save\<close> of an image with colour
  space \<open>UNKNOWN\<close> writes nothing. The file \<open>a.jpg\<close> holds three bytes; after the
  call, which returns false, it holds none.
\<close>

theorem C3_counterexample:
  "getColorSpace unknown_1x1 = UNKNOWN
   \<and> files small_world ''a.jpg'' = Some [1, 2, 3]
   \<and> save strict_lib small_world ''a.jpg'' unknown_1x1 =
        Inr (False, emit [Fopen ''a.jpg'', Create_compress, Stdio_dest]
                      (small_world\<lparr> files := (files small_world)(''a.jpg'' \<mapsto> []) \<rparr>))
   \<and> files (emit [Fopen ''a.jpg'', Create_compress, Stdio_dest]
              (small_world\<lparr> files := (files small_world)(''a.jpg'' \<mapsto> []) \<rparr>)) ''a.jpg''
       = Some []"
  by (simp add: save_def checkFileExtension_def saveJPEG_def fopen_wb_def emit_def
        small_world_def unknown_1x1_def getColorSpace_def)

text \<open>
  Claim C3, amended. For every image with colour space \<open>UNKNOWN\<close> and every path,
  \<open>save\<close> returns false and no image data reaches the file system. When the path is
  empty or cannot be opened for writing, the file system is unchanged; otherwise the
  file at the path is created or truncated, so that it exists and is empty afterwards,
  and every other file is unchanged.
\<close>

theorem C3_save_unknown:
  "getColorSpace img = UNKNOWN \<Longrightarrow>
   \<exists>w'. save lib w path img = Inr (False, w')
     \<and> files w' = (if path \<noteq> [] \<and> can_write w path then (files w)(path \<mapsto> []) else files w)"
  by (simp add: save_def checkFileExtension_def saveJPEG_def fopen_wb_def emit_def getColorSpace_def)

theorem C3_save_unknown_witness:
  "getColorSpace unknown_1x1 = UNKNOWN
   \<and> (\<exists>w'. save strict_lib small_world ''b.jpg'' unknown_1x1 = Inr (False, w')
         \<and> files w' ''b.jpg'' = Some [] \<and> files w' ''a.jpg'' = Some [1, 2, 3])"
proof -
  have h: "getColorSpace unknown_1x1 = UNKNOWN"
    by (simp add: getColorSpace_def unknown_1x1_def)
  show ?thesis
    using h C3_save_unknown [OF h, of strict_lib small_world "''b.jpg''"]
    by (auto simp add: small_world_def)
qed

end
